theory Spec2Isabelle
  imports Main
begin

section \<open>JavaScript values\<close>

text \<open>
  The values the parameter mapper and the request executor handle are typed \<open>unknown\<close>
  or \<open>any\<close> in the source. They are modelled by what the code does with them: the
  truthiness test, \<open>typeof\<close>, the operators \<open>??\<close> and \<open>||\<close>, \<open>Object.keys\<close>,
  \<open>Object.entries\<close> and property assignment. An object (a plain object, an array, a host
  object such as a Blob, or a function) is given by its class and its own enumerable
  string-keyed properties in enumeration order; an array \<open>['a','b']\<close> has the properties
  \<open>0\<close> and \<open>1\<close>. Numbers are integers here: the code only tests them against zero.
  Values are taken by value, so no two arguments of a call share one mutable object.
\<close>

datatype jsclass = Plain | Array | Host | Function

datatype jsval =
    JUndefined
  | JNull
  | JBool bool
  | JNum int
  | JStr string
  | JObj jsclass "(string \<times> jsval) list"

text \<open>ToBoolean: undefined, null, false, 0 and the empty string are falsy.\<close>

fun truthy :: "jsval \<Rightarrow> bool" where
  "truthy JUndefined = False"
| "truthy JNull = False"
| "truthy (JBool b) = b"
| "truthy (JNum n) = (n \<noteq> 0)"
| "truthy (JStr s) = (s \<noteq> [])"
| "truthy (JObj c ps) = True"

fun typeof :: "jsval \<Rightarrow> string" where
  "typeof JUndefined = ''undefined''"
| "typeof JNull = ''object''"
| "typeof (JBool b) = ''boolean''"
| "typeof (JNum n) = ''number''"
| "typeof (JStr s) = ''string''"
| "typeof (JObj Function ps) = ''function''"
| "typeof (JObj c ps) = ''object''"

text \<open>\<open>a ?? b\<close> and \<open>a || b\<close>.\<close>

fun nullish :: "jsval \<Rightarrow> jsval \<Rightarrow> jsval" where
  "nullish JUndefined b = b"
| "nullish JNull b = b"
| "nullish a b = a"

definition or_else :: "jsval \<Rightarrow> jsval \<Rightarrow> jsval" where
  "or_else a b = (if truthy a then a else b)"

text \<open>The decimal numeral of an array index, as a property key.\<close>

fun string_of_nat :: "nat \<Rightarrow> string" where
  "string_of_nat n =
     (if n < 10 then [''0123456789'' ! n]
      else string_of_nat (n div 10) @ [''0123456789'' ! (n mod 10)])"

declare string_of_nat.simps [simp del]

text \<open>
  \<open>Object.entries(v)\<close> for a value that is not null or undefined: the own enumerable
  properties of an object, the indexed characters of a string, nothing for a number or a
  boolean.
\<close>

fun Object_entries :: "jsval \<Rightarrow> (string \<times> jsval) list" where
  "Object_entries (JObj c ps) = ps"
| "Object_entries (JStr s) = map (\<lambda>(i, ch). (string_of_nat i, JStr [ch])) (enumerate 0 s)"
| "Object_entries v = []"

definition Object_keys :: "jsval \<Rightarrow> string list" where
  "Object_keys v = map fst (Object_entries v)"

text \<open>
  \<open>obj[name] = v\<close> on the property list: an existing property keeps its place, a new one
  goes last. (JavaScript enumerates integer-like keys before the others; the lookups and
  the emptiness test below do not depend on the order. The name \<open>__proto__\<close>, which
  JavaScript assigns through the prototype accessor, is a property like any other here.)
\<close>

fun put :: "string \<Rightarrow> jsval \<Rightarrow> (string \<times> jsval) list \<Rightarrow> (string \<times> jsval) list" where
  "put name v [] = [(name, v)]"
| "put name v ((k, w) # ps) = (if k = name then (k, v) # ps else (k, w) # put name v ps)"

datatype error = TypeError

text \<open>
  \<open>target[name] = v\<close> in a module (strict mode): an object takes the property; null and
  undefined raise a TypeError, and so does a primitive, which cannot take a new property.
\<close>

fun setProperty :: "jsval \<Rightarrow> string \<Rightarrow> jsval \<Rightarrow> error + jsval" where
  "setProperty (JObj c ps) name v = Inr (JObj c (put name v ps))"
| "setProperty target name v = Inl TypeError"

section \<open>The parameter mapper (core/params.ts)\<close>

datatype slot = Body | Headers | Path | Query

text \<open>
  A \<open>Field\<close> has its slot \<open>in\<close>, an optional \<open>key\<close> and an optional rename
  \<open>map\<close> (the fields \<open>field_in\<close>, \<open>key\<close> and \<open>field_map\<close>); a \<open>Fields\<close> group
  has an optional \<open>allowExtra\<close> object (its entries in declaration order) and an
  optional array \<open>args\<close> of fields.
\<close>

record field =
  field_in :: slot
  key :: "string option"
  field_map :: "string option"

record fields =
  allowExtra :: "(slot \<times> bool) list option"
  args :: "field list option"

datatype config = AField field | AFields fields

type_synonym FieldsConfig = "config list"

definition extraPrefixes :: "(string \<times> slot) list" where
  "extraPrefixes =
     [(''$body_'', Body), (''$headers_'', Headers), (''$path_'', Path), (''$query_'', Query)]"

text \<open>An optional string is truthy when it is present and not empty.\<close>

fun truthy_string :: "string option \<Rightarrow> bool" where
  "truthy_string None = False"
| "truthy_string (Some s) = (s \<noteq> [])"

type_synonym KeyMap = "string \<rightharpoonup> (slot \<times> string option)"

text \<open>
  \<open>buildKeyMap\<close>: a field with a truthy key is entered under its key, a later entry
  replacing an earlier one; a group's \<open>args\<close> are walked by the recursive call.
\<close>

fun buildKeyMap_fields :: "field list \<Rightarrow> KeyMap \<Rightarrow> KeyMap" where
  "buildKeyMap_fields [] m = m"
| "buildKeyMap_fields (f # fs) m =
     buildKeyMap_fields fs
       (if truthy_string (key f) then m(the (key f) \<mapsto> (field_in f, field_map f)) else m)"

fun buildKeyMap :: "FieldsConfig \<Rightarrow> KeyMap \<Rightarrow> KeyMap" where
  "buildKeyMap [] m = m"
| "buildKeyMap (AField f # cs) m =
     buildKeyMap cs
       (if truthy_string (key f) then m(the (key f) \<mapsto> (field_in f, field_map f)) else m)"
| "buildKeyMap (AFields g # cs) m =
     buildKeyMap cs (case args g of Some fs \<Rightarrow> buildKeyMap_fields fs m | None \<Rightarrow> m)"

text \<open>\<open>Params\<close>: a slot that has been deleted is \<open>None\<close>.\<close>

record params =
  body :: "jsval option"
  headers :: "jsval option"
  path :: "jsval option"
  query :: "jsval option"

fun get_slot :: "params \<Rightarrow> slot \<Rightarrow> jsval option" where
  "get_slot p Body = body p"
| "get_slot p Headers = headers p"
| "get_slot p Path = path p"
| "get_slot p Query = query p"

fun set_slot :: "params \<Rightarrow> slot \<Rightarrow> jsval option \<Rightarrow> params" where
  "set_slot p Body v = p\<lparr>body := v\<rparr>"
| "set_slot p Headers v = p\<lparr>headers := v\<rparr>"
| "set_slot p Path v = p\<lparr>path := v\<rparr>"
| "set_slot p Query v = p\<lparr>query := v\<rparr>"

text \<open>\<open>Object.entries(params)\<close>: the slots that are present, in the order of creation.\<close>

definition params_entries :: "params \<Rightarrow> (slot \<times> jsval) list" where
  "params_entries p =
     concat (map (\<lambda>s. case get_slot p s of None \<Rightarrow> [] | Some v \<Rightarrow> [(s, v)])
       [Body, Headers, Path, Query])"

text \<open>The test of \<open>stripEmptySlots\<close>: a truthy value of type object with no own key.\<close>

definition empty_object :: "jsval \<Rightarrow> bool" where
  "empty_object v = (truthy v \<and> typeof v = ''object'' \<and> Object_keys v = [])"

definition stripEmptySlots :: "params \<Rightarrow> params" where
  "stripEmptySlots p =
     fold (\<lambda>(s, v) q. if empty_object v then set_slot q s None else q) (params_entries p) p"

text \<open>\<open>(params[s] as Record)[name] = v\<close>; reading a deleted slot gives undefined.\<close>

definition assign :: "params \<Rightarrow> slot \<Rightarrow> string \<Rightarrow> jsval \<Rightarrow> error + params" where
  "assign p s name v =
     (case setProperty (case get_slot p s of None \<Rightarrow> JUndefined | Some t \<Rightarrow> t) name v of
        Inl e \<Rightarrow> Inl e
      | Inr t \<Rightarrow> Inr (set_slot p s (Some t)))"

text \<open>\<open>field.map || key\<close>.\<close>

definition target_name :: "string option \<Rightarrow> string \<Rightarrow> string" where
  "target_name r k = (if truthy_string r then the r else k)"

definition startsWith :: "string \<Rightarrow> string \<Rightarrow> bool" where
  "startsWith k prefix = (take (length prefix) k = prefix)"

text \<open>
  One key/value pair of an object argument under a \<open>Fields\<close> group (the body of the inner
  loop of \<open>buildClientParams\<close>): the lookup first, then the reserved prefixes, then the
  first truthy entry of \<open>allowExtra\<close>; otherwise nothing is written.
\<close>

definition place_entry ::
  "KeyMap \<Rightarrow> fields \<Rightarrow> params \<Rightarrow> string \<times> jsval \<Rightarrow> error + params" where
  "place_entry m g p kv =
     (case m (fst kv) of
        Some fld \<Rightarrow> assign p (fst fld) (target_name (snd fld) (fst kv)) (snd kv)
      | None \<Rightarrow>
          (case find (\<lambda>e. startsWith (fst kv) (fst e)) extraPrefixes of
             Some extra \<Rightarrow> assign p (snd extra) (drop (length (fst extra)) (fst kv)) (snd kv)
           | None \<Rightarrow>
               (case find snd (case allowExtra g of None \<Rightarrow> [] | Some ae \<Rightarrow> ae) of
                  Some allowed \<Rightarrow> assign p (fst allowed) (fst kv) (snd kv)
                | None \<Rightarrow> Inr p)))"

fun place_entries ::
  "KeyMap \<Rightarrow> fields \<Rightarrow> params \<Rightarrow> (string \<times> jsval) list \<Rightarrow> error + params" where
  "place_entries m g p [] = Inr p"
| "place_entries m g p (kv # kvs) =
     (case place_entry m g p kv of Inl e \<Rightarrow> Inl e | Inr p' \<Rightarrow> place_entries m g p' kvs)"

text \<open>
  One argument under the active config entry. A field with a truthy key puts the whole
  argument under the looked-up slot and name; a field without one makes the argument the
  body; a group walks \<open>Object.entries(arg ?? {})\<close>.
\<close>

fun place_arg :: "KeyMap \<Rightarrow> config \<Rightarrow> jsval \<Rightarrow> params \<Rightarrow> error + params" where
  "place_arg m (AField f) arg p =
     (if truthy_string (key f) then
        (case m (the (key f)) of
           None \<Rightarrow> Inl TypeError
         | Some fld \<Rightarrow> assign p (fst fld) (target_name (snd fld) (the (key f))) arg)
      else Inr (p\<lparr>body := Some arg\<rparr>))"
| "place_arg m (AFields g) arg p =
     place_entries m g p (Object_entries (nullish arg (JObj Plain [])))"

text \<open>
  The loop over \<open>args.entries()\<close>: \<open>i\<close> is the index of the next argument and \<open>cfg\<close>
  the config entry carried from the arguments before it.
\<close>

fun walk_args ::
  "KeyMap \<Rightarrow> FieldsConfig \<Rightarrow> nat \<Rightarrow> config option \<Rightarrow> jsval list \<Rightarrow> params \<Rightarrow> error + params"
  where
  "walk_args m fs i cfg [] p = Inr p"
| "walk_args m fs i cfg (arg # rest) p =
     (let cfg' = (if i < length fs then Some (fs ! i) else cfg) in
      case cfg' of
        None \<Rightarrow> walk_args m fs (Suc i) cfg' rest p
      | Some c \<Rightarrow>
          (case place_arg m c arg p of
             Inl e \<Rightarrow> Inl e
           | Inr p' \<Rightarrow> walk_args m fs (Suc i) cfg' rest p'))"

definition initial_params :: params where
  "initial_params =
     \<lparr>body = Some (JObj Plain []), headers = Some (JObj Plain []),
      path = Some (JObj Plain []), query = Some (JObj Plain [])\<rparr>"

text \<open>The params of \<open>buildClientParams\<close> when the loop has ended, before stripping.\<close>

definition collect_params :: "jsval list \<Rightarrow> FieldsConfig \<Rightarrow> error + params" where
  "collect_params as fs = walk_args (buildKeyMap fs Map.empty) fs 0 None as initial_params"

definition buildClientParams :: "jsval list \<Rightarrow> FieldsConfig \<Rightarrow> error + params" where
  "buildClientParams as fs =
     (case collect_params as fs of Inl e \<Rightarrow> Inl e | Inr p \<Rightarrow> Inr (stripEmptySlots p))"

text \<open>
  The value of the loop variable \<open>config\<close> while the argument at position \<open>n\<close> is
  processed: the entry at that position, or else the last entry of the config.
\<close>

definition active_config :: "FieldsConfig \<Rightarrow> nat \<Rightarrow> config option" where
  "active_config fs n =
     (if n < length fs then Some (fs ! n) else if fs = [] then None else Some (last fs))"

text \<open>
  A key starts with one of the reserved prefixes; a group admits extra keys when an entry
  of its \<open>allowExtra\<close> is truthy.
\<close>

definition reserved :: "string \<Rightarrow> bool" where
  "reserved k =
     (startsWith k ''$body_'' \<or> startsWith k ''$headers_'' \<or>
      startsWith k ''$path_'' \<or> startsWith k ''$query_'')"

definition admits_extra :: "fields \<Rightarrow> bool" where
  "admits_extra g = (case allowExtra g of None \<Rightarrow> False | Some ae \<Rightarrow> list_ex snd ae)"

section \<open>The request executor (client/client.ts)\<close>

datatype parse_as =
  ParseArrayBuffer | ParseAuto | ParseBlob | ParseFormData | ParseJson | ParseStream | ParseText

datatype response_style = StyleData | StyleFields

text \<open>
  A \<open>Response\<close> of the platform, by what \<open>request\<close> reads of it: \<open>ok\<close>, \<open>status\<close>,
  \<open>headers.get\<close>, the stream \<open>body\<close>, and the outcome of each body reader, where
  \<open>Inl\<close> is the value the reader rejects with.
\<close>

record response =
  ok :: bool
  status :: nat
  headers_get :: "string \<Rightarrow> string option"
  response_body :: jsval
  read_arrayBuffer :: "jsval + jsval"
  read_blob :: "jsval + jsval"
  read_formData :: "jsval + jsval"
  read_json :: "jsval + jsval"
  read_text :: "jsval + string"

text \<open>
  The merged options \<open>opts\<close>, by the fields \<open>request\<close> reads after the Request object
  is built. A function of the caller returns \<open>Inl\<close> of what it throws or rejects with.
\<close>

record 'rq options =
  fetch :: "'rq \<Rightarrow> jsval + response"
  parseAs :: "parse_as option"
  responseStyle :: "response_style option"
  responseValidator :: "(jsval \<Rightarrow> jsval + unit) option"
  responseTransformer :: "(jsval \<Rightarrow> jsval + jsval) option"
  throwOnError :: bool

text \<open>The three \<open>_fns\<close> arrays of the interceptors; an ejected entry is \<open>None\<close>.\<close>

record 'rq interceptors =
  request_fns :: "('rq \<Rightarrow> 'rq options \<Rightarrow> jsval + 'rq) option list"
  response_fns :: "(response \<Rightarrow> 'rq \<Rightarrow> 'rq options \<Rightarrow> jsval + response) option list"
  error_fns :: "(jsval \<Rightarrow> response \<Rightarrow> 'rq \<Rightarrow> 'rq options \<Rightarrow> jsval + jsval) option list"

text \<open>
  What \<open>request\<close> returns: a bare value, or the object \<open>{data | error, request, response}\<close>,
  in which a field that the object literal does not list is \<open>None\<close>.
\<close>

record 'rq envelope =
  result_data :: "jsval option"
  result_error :: "jsval option"
  result_request :: 'rq
  result_response :: response

datatype 'rq returned = Bare jsval | Envelope "'rq envelope"

fun run_request_fns ::
  "('rq \<Rightarrow> 'rq options \<Rightarrow> jsval + 'rq) option list \<Rightarrow> 'rq options \<Rightarrow> 'rq \<Rightarrow> jsval + 'rq" where
  "run_request_fns [] opts rq = Inr rq"
| "run_request_fns (None # fns) opts rq = run_request_fns fns opts rq"
| "run_request_fns (Some fn # fns) opts rq =
     (case fn rq opts of Inl e \<Rightarrow> Inl e | Inr rq' \<Rightarrow> run_request_fns fns opts rq')"

fun run_response_fns ::
  "(response \<Rightarrow> 'rq \<Rightarrow> 'rq options \<Rightarrow> jsval + response) option list \<Rightarrow>
     'rq \<Rightarrow> 'rq options \<Rightarrow> response \<Rightarrow> jsval + response" where
  "run_response_fns [] rq opts resp = Inr resp"
| "run_response_fns (None # fns) rq opts resp = run_response_fns fns rq opts resp"
| "run_response_fns (Some fn # fns) rq opts resp =
     (case fn resp rq opts of
        Inl e \<Rightarrow> Inl e
      | Inr resp' \<Rightarrow> run_response_fns fns rq opts resp')"

text \<open>
  The error chain: every function is called with the initial \<open>error\<close>, and
  \<open>finalError\<close> is what the last function called returned.
\<close>

fun run_error_fns ::
  "(jsval \<Rightarrow> response \<Rightarrow> 'rq \<Rightarrow> 'rq options \<Rightarrow> jsval + jsval) option list \<Rightarrow>
     jsval \<Rightarrow> response \<Rightarrow> 'rq \<Rightarrow> 'rq options \<Rightarrow> jsval \<Rightarrow> jsval + jsval" where
  "run_error_fns [] err resp rq opts finalError = Inr finalError"
| "run_error_fns (None # fns) err resp rq opts finalError =
     run_error_fns fns err resp rq opts finalError"
| "run_error_fns (Some fn # fns) err resp rq opts finalError =
     (case fn err resp rq opts of
        Inl e \<Rightarrow> Inl e
      | Inr v \<Rightarrow> run_error_fns fns err resp rq opts v)"

text \<open>
  Lines 58 to 108 of \<open>request\<close>. The options are merged and the Request object is built by
  functions of \<open>./utils\<close> and of the platform; \<open>built\<close> is the outcome of that part: the
  value thrown there (by \<open>setAuthParams\<close>, the request validator, the body serializer,
  \<open>buildUrl\<close> or the Request constructor), or the merged options and the Request. Then
  the request interceptors run, the transport is called, and the response interceptors
  run.
\<close>

definition exchange ::
  "'rq interceptors \<Rightarrow> jsval + ('rq options \<times> 'rq) \<Rightarrow> jsval + ('rq options \<times> 'rq \<times> response)"
  where
  "exchange ics built =
     (case built of
        Inl e \<Rightarrow> Inl e
      | Inr (opts, rq0) \<Rightarrow>
          (case run_request_fns (request_fns ics) opts rq0 of
             Inl e \<Rightarrow> Inl e
           | Inr rq \<Rightarrow>
               (case fetch opts rq of
                  Inl e \<Rightarrow> Inl e
                | Inr resp0 \<Rightarrow>
                    (case run_response_fns (response_fns ics) rq opts resp0 of
                       Inl e \<Rightarrow> Inl e
                     | Inr resp \<Rightarrow> Inr (opts, rq, resp)))))"

text \<open>\<open>opts.responseStyle === 'data' ? d : {data: d, ...result}\<close>.\<close>

definition with_data :: "'rq options \<Rightarrow> jsval \<Rightarrow> 'rq \<Rightarrow> response \<Rightarrow> 'rq returned" where
  "with_data opts d rq resp =
     (if responseStyle opts = Some StyleData then Bare d
      else Envelope \<lparr>result_data = Some d, result_error = None,
                     result_request = rq, result_response = resp\<rparr>)"

text \<open>
  \<open>await response[parseAs]()\<close> in the switch; no case matches \<open>'auto'\<close>, which leaves
  \<open>data\<close> undefined, and \<open>'stream'\<close> returns before any reader is called.
\<close>

fun read_as :: "response \<Rightarrow> parse_as \<Rightarrow> jsval + jsval" where
  "read_as resp ParseArrayBuffer = read_arrayBuffer resp"
| "read_as resp ParseBlob = read_blob resp"
| "read_as resp ParseFormData = read_formData resp"
| "read_as resp ParseJson = read_json resp"
| "read_as resp ParseText = (case read_text resp of Inl e \<Rightarrow> Inl e | Inr s \<Rightarrow> Inr (JStr s))"
| "read_as resp ParseAuto = Inr JUndefined"
| "read_as resp ParseStream = Inr JUndefined"

text \<open>
  Lines 115 to 167: the branch of \<open>response.ok\<close>. \<open>getParseAs\<close> is a function of
  \<open>./utils\<close> and is a parameter.
\<close>

definition on_ok ::
  "(string option \<Rightarrow> parse_as option) \<Rightarrow> 'rq options \<Rightarrow> 'rq \<Rightarrow> response \<Rightarrow> jsval + 'rq returned"
  where
  "on_ok getParseAs opts rq resp =
     (if status resp = 204 \<or> headers_get resp ''Content-Length'' = Some ''0''
      then Inr (with_data opts (JObj Plain []) rq resp)
      else
        (let mode =
           (case (if parseAs opts = Some ParseAuto
                  then getParseAs (headers_get resp ''Content-Type'')
                  else parseAs opts) of
              None \<Rightarrow> ParseJson
            | Some pa \<Rightarrow> pa)
         in
           if mode = ParseStream then Inr (with_data opts (response_body resp) rq resp)
           else
             (case read_as resp mode of
                Inl e \<Rightarrow> Inl e
              | Inr d \<Rightarrow>
                  if mode = ParseJson then
                    (case (case responseValidator opts of
                             None \<Rightarrow> Inr ()
                           | Some validate \<Rightarrow> validate d) of
                       Inl e \<Rightarrow> Inl e
                     | Inr u \<Rightarrow>
                         (case (case responseTransformer opts of
                                  None \<Rightarrow> Inr d
                                | Some transform \<Rightarrow> transform d) of
                            Inl e \<Rightarrow> Inl e
                          | Inr d' \<Rightarrow> Inr (with_data opts d' rq resp)))
                  else Inr (with_data opts d rq resp))))"

text \<open>
  Lines 169 to 199: the branch of a response that is not ok. \<open>JSON_parse\<close> is the
  platform's \<open>JSON.parse\<close>, \<open>None\<close> where it throws.
\<close>

definition on_error ::
  "(string \<Rightarrow> jsval option) \<Rightarrow> 'rq interceptors \<Rightarrow> 'rq options \<Rightarrow> 'rq \<Rightarrow> response \<Rightarrow>
     jsval + 'rq returned" where
  "on_error JSON_parse ics opts rq resp =
     (case read_text resp of
        Inl e \<Rightarrow> Inl e
      | Inr textError \<Rightarrow>
          (let jsonError = (case JSON_parse textError of None \<Rightarrow> JUndefined | Some v \<Rightarrow> v);
               err = nullish jsonError (JStr textError)
           in
             case run_error_fns (error_fns ics) err resp rq opts err of
               Inl e \<Rightarrow> Inl e
             | Inr finalError \<Rightarrow>
                 (let finalError' = or_else finalError (JObj Plain []) in
                  if throwOnError opts then Inl finalError'
                  else if responseStyle opts = Some StyleData then Inr (Bare JUndefined)
                  else Inr (Envelope \<lparr>result_data = None, result_error = Some finalError',
                                       result_request = rq, result_response = resp\<rparr>))))"

text \<open>\<open>request\<close>: \<open>Inl\<close> is the value the call throws, \<open>Inr\<close> what it returns.\<close>

definition request ::
  "(string \<Rightarrow> jsval option) \<Rightarrow> (string option \<Rightarrow> parse_as option) \<Rightarrow> 'rq interceptors \<Rightarrow>
     jsval + ('rq options \<times> 'rq) \<Rightarrow> jsval + 'rq returned" where
  "request JSON_parse getParseAs ics built =
     (case exchange ics built of
        Inl e \<Rightarrow> Inl e
      | Inr (opts, rq, resp) \<Rightarrow>
          if ok resp then on_ok getParseAs opts rq resp
          else on_error JSON_parse ics opts rq resp)"

section \<open>Results and tagged errors (wellcrafted)\<close>

text \<open>
  \<open>Ok(value)\<close> and \<open>Err(error)\<close> of the library. A tagged error that
  \<open>createTaggedError(name)\<close> builds is the input object with the tag as its \<open>name\<close>; a
  field the input leaves out is undefined.
\<close>

datatype ('a, 'e) result = Ok 'a | Err 'e

record tagged_error =
  err_name :: string
  err_message :: string
  err_context :: jsval
  err_cause :: jsval

text \<open>
  \<open>tryAsync({try, catch})\<close>: \<open>Ok\<close> of the value the \<open>try\<close> function resolves to, or what
  \<open>catch\<close> returns for the value it throws.
\<close>

definition tryAsync ::
  "jsval + 'a \<Rightarrow> (jsval \<Rightarrow> ('a, 'e) result) \<Rightarrow> ('a, 'e) result" where
  "tryAsync attempt catch = (case attempt of Inl e \<Rightarrow> catch e | Inr v \<Rightarrow> Ok v)"

text \<open>
  A service operation returns its result together with the names of the platform
  functions it has called, in the order of the calls.
\<close>

type_synonym 'a traced = "'a \<times> string list"

section \<open>The permissions service\<close>

text \<open>
  \<open>IS_MACOS\<close>, the four functions of the macOS permissions plugin (each by the outcome of
  its call, the dynamic import included) and \<open>extractErrorMessage\<close> are parameters.
\<close>

record permissions_platform =
  IS_MACOS :: bool
  checkAccessibilityPermission :: "jsval + jsval"
  requestAccessibilityPermission :: "jsval + jsval"
  checkMicrophonePermission :: "jsval + jsval"
  requestMicrophonePermission :: "jsval + jsval"
  extractErrorMessage :: "jsval \<Rightarrow> string"

definition PermissionsServiceErr :: "string \<Rightarrow> jsval \<Rightarrow> ('a, tagged_error) result" where
  "PermissionsServiceErr msg cause =
     Err \<lparr>err_name = ''PermissionsServiceError'', err_message = msg,
          err_context = JUndefined, err_cause = cause\<rparr>"

definition accessibility_check ::
  "permissions_platform \<Rightarrow> (jsval, tagged_error) result traced" where
  "accessibility_check pf =
     (if \<not> IS_MACOS pf then (Ok (JBool True), [])
      else
        (tryAsync (checkAccessibilityPermission pf)
           (\<lambda>e. PermissionsServiceErr
                  (''Failed to check accessibility permissions: '' @ extractErrorMessage pf e) e),
         [''checkAccessibilityPermission'']))"

definition accessibility_request ::
  "permissions_platform \<Rightarrow> (jsval, tagged_error) result traced" where
  "accessibility_request pf =
     (if \<not> IS_MACOS pf then (Ok (JBool True), [])
      else
        (tryAsync (requestAccessibilityPermission pf)
           (\<lambda>e. PermissionsServiceErr
                  (''Failed to request accessibility permissions: '' @ extractErrorMessage pf e) e),
         [''requestAccessibilityPermission'']))"

definition microphone_check ::
  "permissions_platform \<Rightarrow> (jsval, tagged_error) result traced" where
  "microphone_check pf =
     (if \<not> IS_MACOS pf then (Ok (JBool True), [])
      else
        (tryAsync (checkMicrophonePermission pf)
           (\<lambda>e. PermissionsServiceErr
                  (''Failed to check microphone permissions: '' @ extractErrorMessage pf e) e),
         [''checkMicrophonePermission'']))"

definition microphone_request ::
  "permissions_platform \<Rightarrow> (jsval, tagged_error) result traced" where
  "microphone_request pf =
     (if \<not> IS_MACOS pf then (Ok (JBool True), [])
      else
        (tryAsync (requestMicrophonePermission pf)
           (\<lambda>e. PermissionsServiceErr
                  (''Failed to request microphone permissions: '' @ extractErrorMessage pf e) e),
         [''requestMicrophonePermission'']))"

section \<open>The web FFmpeg service (ffmpeg/web.ts)\<close>

text \<open>
  Modelled from the spec: \<open>FfmpegServiceErr\<close> of \<open>ffmpeg/types\<close>, which is not among the
  sources. The spec has the collaborators return "a tagged error carrying a human-readable
  message and the triggering cause, returned (never thrown)": the error is built from the
  input's message, context and cause under the tag of the service and returned as \<open>Err\<close>.
\<close>

definition FfmpegServiceErr :: "string \<Rightarrow> jsval \<Rightarrow> jsval \<Rightarrow> ('a, tagged_error) result" where
  "FfmpegServiceErr msg ctx cause =
     Err \<lparr>err_name = ''FfmpegServiceError'', err_message = msg,
          err_context = ctx, err_cause = cause\<rparr>"

definition checkInstalled :: "(jsval, tagged_error) result traced" where
  "checkInstalled = (Ok (JBool False), [])"

definition compressAudioBlob ::
  "jsval \<Rightarrow> string \<Rightarrow> (jsval, tagged_error) result traced" where
  "compressAudioBlob blob compressionOptions =
     (FfmpegServiceErr
        (''Audio compression is not available in the web version. '' @
         ''FFmpeg is only supported in the desktop application.'')
        (JObj Plain [(''compressionOptions'', JStr compressionOptions)])
        JUndefined,
      [])"

section \<open>The desktop notification service (notifications/desktop.ts)\<close>

text \<open>
  The notification plugin's \<open>active\<close> and \<open>removeActive\<close> (by the outcome of the call) and
  \<open>hashNanoidToNumber\<close> of \<open>notifications/types\<close> are parameters.
\<close>

record notification_platform =
  active :: "jsval + jsval list"
  removeActive :: "jsval list \<Rightarrow> jsval + jsval"
  hashNanoidToNumber :: "string \<Rightarrow> int"

text \<open>
  Modelled from the spec: \<open>NotificationServiceErr\<close> of \<open>notifications/types\<close>, which is
  not among the sources; a tagged error returned as \<open>Err\<close>, as for the FFmpeg service.
\<close>

definition NotificationServiceErr ::
  "string \<Rightarrow> jsval \<Rightarrow> jsval \<Rightarrow> ('a, tagged_error) result" where
  "NotificationServiceErr msg ctx cause =
     Err \<lparr>err_name = ''NotificationServiceError'', err_message = msg,
          err_context = ctx, err_cause = cause\<rparr>"

text \<open>\<open>v.name\<close> on a value that is not null or undefined.\<close>

fun get_property :: "jsval \<Rightarrow> string \<Rightarrow> jsval" where
  "get_property (JObj c ps) name = (case map_of ps name of None \<Rightarrow> JUndefined | Some v \<Rightarrow> v)"
| "get_property v name = JUndefined"

definition string_of_int :: "int \<Rightarrow> string" where
  "string_of_int i =
     (if i < 0 then ''-'' @ string_of_nat (nat (- i)) else string_of_nat (nat i))"

definition removeNotificationById ::
  "notification_platform \<Rightarrow> int \<Rightarrow> (jsval, tagged_error) result traced" where
  "removeNotificationById pf i =
     (case tryAsync (active pf)
             (\<lambda>e. NotificationServiceErr ''Unable to retrieve active desktop notifications.''
                    (JObj Plain [(''id'', JNum i)]) e) of
        Err activeNotificationsError \<Rightarrow> (Err activeNotificationsError, [''active''])
      | Ok activeNotifications \<Rightarrow>
          (case find (\<lambda>notification. get_property notification ''id'' = JNum i)
                  activeNotifications of
             None \<Rightarrow> (Ok JUndefined, [''active''])
           | Some matchingActiveNotification \<Rightarrow>
               (case tryAsync (removeActive pf [matchingActiveNotification])
                       (\<lambda>e. NotificationServiceErr
                              (''Unable to remove notification with id '' @ string_of_int i @ ''.'')
                              (JObj Plain
                                 [(''id'', JNum i),
                                  (''matchingActiveNotification'', matchingActiveNotification)])
                              e) of
                  Err removeActiveError \<Rightarrow> (Err removeActiveError, [''active'', ''removeActive''])
                | Ok u \<Rightarrow> (Ok JUndefined, [''active'', ''removeActive'']))))"

definition clear :: "notification_platform \<Rightarrow> string \<Rightarrow> (jsval, tagged_error) result traced" where
  "clear pf idStringified = removeNotificationById pf (hashNanoidToNumber pf idStringified)"

section \<open>Sample inputs\<close>

text \<open>
  The values of \<open>JSON.parse\<close> on the texts that the examples below hand to it; the
  examples read it on these texts only.
\<close>

definition JSON_parse_sample :: "string \<Rightarrow> jsval option" where
  "JSON_parse_sample t =
     (if t = ''null'' then Some JNull
      else if t = ''false'' then Some (JBool False)
      else if t = ''[404]'' then Some (JObj Array [(''0'', JNum 404)])
      else None)"

text \<open>A response without headers whose body is the text \<open>t\<close>.\<close>

definition sample_response :: "bool \<Rightarrow> nat \<Rightarrow> string \<Rightarrow> response" where
  "sample_response is_ok code t =
     \<lparr>ok = is_ok, status = code, headers_get = (\<lambda>h. None), response_body = JObj Host [],
      read_arrayBuffer = Inr (JObj Host []), read_blob = Inr (JObj Host []),
      read_formData = Inl (JStr ''TypeError''),
      read_json =
        (case JSON_parse_sample t of None \<Rightarrow> Inl (JStr ''SyntaxError'') | Some v \<Rightarrow> Inr v),
      read_text = Inr t\<rparr>"

text \<open>
  Options whose transport answers with \<open>resp\<close>: the envelope style, no throwing on
  error, and a response validator that rejects whatever it is given.
\<close>

definition sample_options :: "response \<Rightarrow> string options" where
  "sample_options resp =
     \<lparr>fetch = (\<lambda>rq. Inr resp), parseAs = Some ParseJson, responseStyle = None,
      responseValidator = Some (\<lambda>d. Inl (JStr ''invalid'')), responseTransformer = None,
      throwOnError = False\<rparr>"

definition no_interceptors :: "string interceptors" where
  "no_interceptors = \<lparr>request_fns = [], response_fns = [], error_fns = []\<rparr>"

text \<open>A platform that is not macOS, on which every call of the plugin would fail.\<close>

definition sample_permissions_platform :: permissions_platform where
  "sample_permissions_platform =
     \<lparr>IS_MACOS = False,
      checkAccessibilityPermission = Inl (JStr ''no plugin''),
      requestAccessibilityPermission = Inl (JStr ''no plugin''),
      checkMicrophonePermission = Inl (JStr ''no plugin''),
      requestMicrophonePermission = Inl (JStr ''no plugin''),
      extractErrorMessage = (\<lambda>e. ''unknown error'')\<rparr>"

text \<open>
  A notification platform with one active notification, of id 7, on which a removal
  would fail; the hash of a string is taken to be its length.
\<close>

definition sample_notification_platform :: notification_platform where
  "sample_notification_platform =
     \<lparr>active = Inr [JObj Plain [(''id'', JNum 7), (''title'', JStr ''Saved'')]],
      removeActive = (\<lambda>ns. Inl (JStr ''removal failed'')),
      hashNanoidToNumber = (\<lambda>s. int (length s))\<rparr>"

text \<open>
  A group that declares the header field \<open>token\<close> and whose \<open>allowExtra\<close> admits
  nothing.
\<close>

definition sample_group :: fields where
  "sample_group =
     \<lparr>allowExtra = Some [(Query, False)],
      args = Some [\<lparr>field_in = Headers, key = Some ''token'', field_map = None\<rparr>]\<rparr>"

section \<open>Properties of the parameter mapper\<close>

lemma stripEmptySlots_slots:
  "stripEmptySlots p =
     \<lparr>body = (case body p of None \<Rightarrow> None
               | Some v \<Rightarrow> if empty_object v then None else Some v),
      headers = (case headers p of None \<Rightarrow> None
                  | Some v \<Rightarrow> if empty_object v then None else Some v),
      path = (case path p of None \<Rightarrow> None
               | Some v \<Rightarrow> if empty_object v then None else Some v),
      query = (case query p of None \<Rightarrow> None
                | Some v \<Rightarrow> if empty_object v then None else Some v)\<rparr>"
  by (cases p) (simp add: stripEmptySlots_def params_entries_def split: option.splits)


text \<open>
  Claim C8. \<open>stripEmptySlots\<close> is idempotent: for every Params object, stripping twice
  leaves the object that stripping once leaves.
\<close>

theorem stripEmptySlots_idempotent:
  "stripEmptySlots (stripEmptySlots p) = stripEmptySlots p"
  by (simp add: stripEmptySlots_slots split: option.splits)

subsection \<open>The body slot is present while the arguments are walked\<close>











subsection \<open>The example of the spec\<close>

lemma example_params:
  "buildClientParams [JObj Plain [(''id'', JStr ''1'')], JStr ''hello'']
     [AField \<lparr>field_in = Path, key = Some ''id'', field_map = None\<rparr>,
      AField \<lparr>field_in = Body, key = None, field_map = None\<rparr>] =
   Inr \<lparr>body = Some (JStr ''hello''), headers = None,
        path = Some (JObj Plain [(''id'', JObj Plain [(''id'', JStr ''1'')])]),
        query = None\<rparr>"
  by (simp add: buildClientParams_def collect_params_def initial_params_def assign_def
      target_name_def stripEmptySlots_slots empty_object_def Object_keys_def)

text \<open>
  Claim C2 fails as stated: for the arguments \<open>[{id:'1'}, 'hello']\<close> and the fields
  \<open>[{in:'path',key:'id'}, {in:'body'}]\<close> the result is not
  \<open>{path:{id:'1'}, body:'hello'}\<close>.
\<close>

theorem example_params_path_is_not_flat:
  "buildClientParams [JObj Plain [(''id'', JStr ''1'')], JStr ''hello'']
     [AField \<lparr>field_in = Path, key = Some ''id'', field_map = None\<rparr>,
      AField \<lparr>field_in = Body, key = None, field_map = None\<rparr>] \<noteq>
   Inr \<lparr>body = Some (JStr ''hello''), headers = None,
        path = Some (JObj Plain [(''id'', JStr ''1'')]), query = None\<rparr>"
  by (simp add: example_params)

text \<open>
  Claim C2, amended. A field with a key stores the whole argument at its position under
  that key, so the result is \<open>{path:{id:{id:'1'}}, body:'hello'}\<close>: the first argument
  \<open>{id:'1'}\<close> is the value of \<open>path.id\<close>. The headers and query slots are absent from the
  returned object.
\<close>

theorem example_params_path_holds_whole_argument:
  "buildClientParams [JObj Plain [(''id'', JStr ''1'')], JStr ''hello'']
     [AField \<lparr>field_in = Path, key = Some ''id'', field_map = None\<rparr>,
      AField \<lparr>field_in = Body, key = None, field_map = None\<rparr>] =
   Inr \<lparr>body = Some (JStr ''hello''), headers = None,
        path = Some (JObj Plain [(''id'', JObj Plain [(''id'', JStr ''1'')])]),
        query = None\<rparr>"
  by (rule example_params)

subsection \<open>Keys that a group drops\<close>

lemma find_prefix_None:
  "\<not> reserved k \<Longrightarrow> find (\<lambda>e. startsWith k (fst e)) extraPrefixes = None"
  by (simp add: reserved_def extraPrefixes_def)

lemma find_allowed_None:
  "\<not> admits_extra g \<Longrightarrow>
     find snd (case allowExtra g of None \<Rightarrow> [] | Some ae \<Rightarrow> ae) = None"
  by (auto simp: admits_extra_def find_None_iff list_ex_iff split: option.splits)

lemma place_entry_dropped:
  "m k = None \<Longrightarrow> \<not> reserved k \<Longrightarrow> \<not> admits_extra g \<Longrightarrow> place_entry m g p (k, v) = Inr p"
  by (simp add: place_entry_def find_prefix_None find_allowed_None)

lemma place_entries_append:
  "place_entries m g p (xs @ ys) =
     (case place_entries m g p xs of Inl e \<Rightarrow> Inl e | Inr p' \<Rightarrow> place_entries m g p' ys)"
  by (induction xs arbitrary: p) (auto split: sum.splits)

lemma place_entries_dropped:
  "m k = None \<Longrightarrow> \<not> reserved k \<Longrightarrow> \<not> admits_extra g \<Longrightarrow>
     place_entries m g p (xs @ (k, v) # ys) = place_entries m g p (xs @ ys)"
  by (simp add: place_entries_append place_entry_dropped split: sum.splits)

text \<open>
  The loop variable \<open>config\<close> is \<open>active_config\<close>: entering position \<open>i\<close> it holds the
  active entry of the position before.
\<close>

lemma active_config_step:
  "cfg = (if i = 0 then None else active_config fs (i - 1)) \<Longrightarrow>
     (if i < length fs then Some (fs ! i) else cfg) = active_config fs i"
  by (cases "i = 0") (auto simp: active_config_def last_conv_nth not_less dest: le_antisym)

lemma walk_args_Cons:
  assumes "cfg = (if i = 0 then None else active_config fs (i - 1))"
  shows "walk_args m fs i cfg (a # rest) p =
     (case active_config fs i of
        None \<Rightarrow> walk_args m fs (Suc i) (active_config fs i) rest p
      | Some c \<Rightarrow>
          (case place_arg m c a p of
             Inl e \<Rightarrow> Inl e
           | Inr p' \<Rightarrow> walk_args m fs (Suc i) (active_config fs i) rest p'))"
  using active_config_step [OF assms] by (simp add: Let_def)

lemma active_config_carried:
  "active_config fs i = (if Suc i = 0 then None else active_config fs (Suc i - 1))"
  by simp

text \<open>
  Replacing one argument by another that the active entry places in the same way does not
  change the walk.
\<close>

lemma walk_args_swap:
  assumes same: "\<And>q. place_arg m c a q = place_arg m c a' q"
  shows "cfg = (if i = 0 then None else active_config fs (i - 1)) \<Longrightarrow>
     active_config fs (i + length as1) = Some c \<Longrightarrow>
     walk_args m fs i cfg (as1 @ a # as2) p = walk_args m fs i cfg (as1 @ a' # as2) p"
proof (induction as1 arbitrary: i cfg p)
  case Nil
  then show ?case
    using same by (simp add: walk_args_Cons del: walk_args.simps)
next
  case (Cons x as1)
  have act: "active_config fs (Suc i + length as1) = Some c"
    using Cons.prems(2) by simp
  have IH: "\<And>q. walk_args m fs (Suc i) (active_config fs i) (as1 @ a # as2) q =
                 walk_args m fs (Suc i) (active_config fs i) (as1 @ a' # as2) q"
    by (rule Cons.IH [OF active_config_carried act])
  have L: "walk_args m fs i cfg ((x # as1) @ a # as2) p =
     (case active_config fs i of
        None \<Rightarrow> walk_args m fs (Suc i) (active_config fs i) (as1 @ a # as2) p
      | Some c \<Rightarrow>
          (case place_arg m c x p of
             Inl e \<Rightarrow> Inl e
           | Inr p' \<Rightarrow> walk_args m fs (Suc i) (active_config fs i) (as1 @ a # as2) p'))"
    unfolding append_Cons by (rule walk_args_Cons [OF Cons.prems(1)])
  have R: "walk_args m fs i cfg ((x # as1) @ a' # as2) p =
     (case active_config fs i of
        None \<Rightarrow> walk_args m fs (Suc i) (active_config fs i) (as1 @ a' # as2) p
      | Some c \<Rightarrow>
          (case place_arg m c x p of
             Inl e \<Rightarrow> Inl e
           | Inr p' \<Rightarrow> walk_args m fs (Suc i) (active_config fs i) (as1 @ a' # as2) p'))"
    unfolding append_Cons by (rule walk_args_Cons [OF Cons.prems(1)])
  show ?case unfolding L R IH ..
qed

text \<open>The last argument is placed by the entry that is active at its position.\<close>

lemma walk_args_snoc:
  "cfg = (if i = 0 then None else active_config fs (i - 1)) \<Longrightarrow>
   walk_args m fs i cfg (xs @ [a]) p =
     (case walk_args m fs i cfg xs p of
        Inl e \<Rightarrow> Inl e
      | Inr p' \<Rightarrow>
          (case active_config fs (i + length xs) of
             None \<Rightarrow> Inr p'
           | Some c \<Rightarrow> place_arg m c a p'))"
proof (induction xs arbitrary: i cfg p)
  case Nil
  have "walk_args m fs i cfg [a] p =
     (case active_config fs i of
        None \<Rightarrow> Inr p
      | Some c \<Rightarrow> (case place_arg m c a p of Inl e \<Rightarrow> Inl e | Inr p' \<Rightarrow> Inr p'))"
    by (simp only: walk_args_Cons [OF Nil] walk_args.simps(1))
  then show ?case
    by (simp del: walk_args.simps(2) split: option.splits sum.splits)
next
  case (Cons x xs)
  have IH: "\<And>q. walk_args m fs (Suc i) (active_config fs i) (xs @ [a]) q =
     (case walk_args m fs (Suc i) (active_config fs i) xs q of
        Inl e \<Rightarrow> Inl e
      | Inr p' \<Rightarrow>
          (case active_config fs (Suc i + length xs) of
             None \<Rightarrow> Inr p'
           | Some c \<Rightarrow> place_arg m c a p'))"
    by (rule Cons.IH [OF active_config_carried])
  have L: "walk_args m fs i cfg ((x # xs) @ [a]) p =
     (case active_config fs i of
        None \<Rightarrow> walk_args m fs (Suc i) (active_config fs i) (xs @ [a]) p
      | Some c \<Rightarrow>
          (case place_arg m c x p of
             Inl e \<Rightarrow> Inl e
           | Inr p' \<Rightarrow> walk_args m fs (Suc i) (active_config fs i) (xs @ [a]) p'))"
    unfolding append_Cons by (rule walk_args_Cons [OF Cons.prems])
  have R: "walk_args m fs i cfg (x # xs) p =
     (case active_config fs i of
        None \<Rightarrow> walk_args m fs (Suc i) (active_config fs i) xs p
      | Some c \<Rightarrow>
          (case place_arg m c x p of
             Inl e \<Rightarrow> Inl e
           | Inr p' \<Rightarrow> walk_args m fs (Suc i) (active_config fs i) xs p'))"
    by (rule walk_args_Cons [OF Cons.prems])
  show ?case unfolding L R IH
    by (cases "active_config fs i") (simp_all split: sum.splits)
qed

lemma dropped_key_example:
  "buildClientParams [JObj Plain [(''foo'', JNum 1), (''$query_foo'', JNum 2)]]
     [AFields \<lparr>allowExtra = None, args = None\<rparr>] =
   Inr \<lparr>body = None, headers = None, path = None,
        query = Some (JObj Plain [(''foo'', JNum 2)])\<rparr>"
  by (simp add: buildClientParams_def collect_params_def initial_params_def place_entry_def
      extraPrefixes_def startsWith_def assign_def stripEmptySlots_slots empty_object_def
      Object_keys_def)

text \<open>
  Claim C6 fails as stated. In the argument \<open>{foo: 1, $query_foo: 2}\<close> under a group
  without fields and without \<open>allowExtra\<close>, the key \<open>foo\<close> is not in the lookup, has no
  reserved prefix and is not admitted by \<open>allowExtra\<close>; yet the returned query slot has
  the key \<open>foo\<close>, written for the key \<open>$query_foo\<close>.
\<close>

theorem dropped_key_name_present_in_slot:
  "buildKeyMap [AFields \<lparr>allowExtra = None, args = None\<rparr>] Map.empty ''foo'' = None \<and>
   \<not> reserved ''foo'' \<and>
   \<not> admits_extra \<lparr>allowExtra = None, args = None\<rparr> \<and>
   buildClientParams [JObj Plain [(''foo'', JNum 1), (''$query_foo'', JNum 2)]]
     [AFields \<lparr>allowExtra = None, args = None\<rparr>] =
   Inr \<lparr>body = None, headers = None, path = None,
        query = Some (JObj Plain [(''foo'', JNum 2)])\<rparr> \<and>
   Object_keys (JObj Plain [(''foo'', JNum 2)]) = [''foo'']"
  by (simp add: dropped_key_example reserved_def startsWith_def admits_extra_def
      Object_keys_def)

text \<open>
  Claim C6, amended. For every fields config and argument list: a key \<open>k\<close> of an object
  argument whose active entry is a group \<open>g\<close>, where \<open>k\<close> is not in the key lookup, starts
  with no reserved prefix and is not admitted by an \<open>allowExtra\<close> entry of \<open>g\<close>, is
  dropped silently: placing it writes to no slot and raises no error, and the call returns
  what it returns for the same argument without that key. (The name \<open>k\<close> is in a slot of
  the result only when another key or another argument puts it there.)
\<close>

theorem dropped_key_has_no_effect:
  assumes "active_config fs (length as1) = Some (AFields g)"
    and "buildKeyMap fs Map.empty k = None"
    and "\<not> reserved k"
    and "\<not> admits_extra g"
  shows "place_entry (buildKeyMap fs Map.empty) g p (k, v) = Inr p \<and>
    buildClientParams (as1 @ JObj c (xs @ (k, v) # ys) # as2) fs =
    buildClientParams (as1 @ JObj c (xs @ ys) # as2) fs"
proof -
  let ?m = "buildKeyMap fs Map.empty"
  have same: "\<And>q. place_arg ?m (AFields g) (JObj c (xs @ (k, v) # ys)) q =
                   place_arg ?m (AFields g) (JObj c (xs @ ys)) q"
    using assms(2-4) by (simp add: place_entries_dropped)
  have "walk_args ?m fs 0 None (as1 @ JObj c (xs @ (k, v) # ys) # as2) initial_params =
        walk_args ?m fs 0 None (as1 @ JObj c (xs @ ys) # as2) initial_params"
    by (rule walk_args_swap [OF same]) (use assms(1) in simp_all)
  then show ?thesis
    using assms(2-4)
    by (simp add: buildClientParams_def collect_params_def place_entry_dropped)
qed

text \<open>
  Witness for claim C6: under \<open>sample_group\<close> the key \<open>foo\<close> of the argument
  \<open>{token:'t', foo:1}\<close> is dropped, and the call returns what it returns for
  \<open>{token:'t'}\<close>.
\<close>

theorem dropped_key_has_no_effect_witness:
  "active_config [AFields sample_group] (length ([] :: jsval list)) =
     Some (AFields sample_group) \<and>
   buildKeyMap [AFields sample_group] Map.empty ''foo'' = None \<and>
   \<not> reserved ''foo'' \<and>
   \<not> admits_extra sample_group \<and>
   place_entry (buildKeyMap [AFields sample_group] Map.empty) sample_group initial_params
     (''foo'', JNum 1) = Inr initial_params \<and>
   buildClientParams [JObj Plain [(''token'', JStr ''t''), (''foo'', JNum 1)]]
     [AFields sample_group] =
   buildClientParams [JObj Plain [(''token'', JStr ''t'')]] [AFields sample_group] \<and>
   buildClientParams [JObj Plain [(''token'', JStr ''t'')]] [AFields sample_group] =
   Inr \<lparr>body = None, headers = Some (JObj Plain [(''token'', JStr ''t'')]),
        path = None, query = None\<rparr>"
proof -
  have active: "active_config [AFields sample_group] (length ([] :: jsval list)) =
      Some (AFields sample_group)"
    by (simp add: active_config_def)
  have undeclared: "buildKeyMap [AFields sample_group] Map.empty ''foo'' = None"
    by (simp add: sample_group_def)
  have unreserved: "\<not> reserved ''foo''"
    by (simp add: reserved_def startsWith_def)
  have unadmitted: "\<not> admits_extra sample_group"
    by (simp add: admits_extra_def sample_group_def)
  have without:
    "buildClientParams [JObj Plain [(''token'', JStr ''t'')]] [AFields sample_group] =
     Inr \<lparr>body = None, headers = Some (JObj Plain [(''token'', JStr ''t'')]),
          path = None, query = None\<rparr>"
    by (simp add: buildClientParams_def collect_params_def initial_params_def place_entry_def
        sample_group_def assign_def target_name_def stripEmptySlots_slots empty_object_def
        Object_keys_def)
  show ?thesis
    using active undeclared unreserved unadmitted without
      dropped_key_has_no_effect [OF active undeclared unreserved unadmitted,
        of initial_params "JNum 1" Plain "[(''token'', JStr ''t'')]" "[]" "[]"]
    by simp
qed

subsection \<open>Carrying the active entry forward\<close>

lemma collect_params_snoc:
  "collect_params (as1 @ [a]) fs =
     (case collect_params as1 fs of
        Inl e \<Rightarrow> Inl e
      | Inr p \<Rightarrow>
          (case active_config fs (length as1) of
             None \<Rightarrow> Inr p
           | Some c \<Rightarrow> place_arg (buildKeyMap fs Map.empty) c a p))"
  by (simp add: collect_params_def walk_args_snoc del: walk_args.simps split: sum.splits)

lemma query_a_params:
  "buildClientParams [JStr ''x''] [AField \<lparr>field_in = Query, key = Some ''a'', field_map = None\<rparr>] =
     Inr \<lparr>body = None, headers = None, path = None,
          query = Some (JObj Plain [(''a'', JStr ''x'')])\<rparr>"
  "buildClientParams [JStr ''x'', JStr ''y'']
     [AField \<lparr>field_in = Query, key = Some ''a'', field_map = None\<rparr>] =
     Inr \<lparr>body = None, headers = None, path = None,
          query = Some (JObj Plain [(''a'', JStr ''y'')])\<rparr>"
  "buildClientParams [JStr ''x'', JStr ''y'', JStr ''z'']
     [AField \<lparr>field_in = Query, key = Some ''a'', field_map = None\<rparr>] =
     Inr \<lparr>body = None, headers = None, path = None,
          query = Some (JObj Plain [(''a'', JStr ''z'')])\<rparr>"
  by (simp_all add: buildClientParams_def collect_params_def initial_params_def assign_def
      target_name_def stripEmptySlots_slots empty_object_def Object_keys_def)

text \<open>
  Claim C7. \<open>buildClientParams\<close> carries the last-seen config entry forward: the
  argument after any arguments \<open>as1\<close> is placed by the entry active at its position, which
  is the last entry of the config once the positions have run past it. For the fields
  \<open>[{in:'query', key:'a'}]\<close> the entry of position 0 is the active one at positions 1
  and 2, and the arguments \<open>['x','y','z']\<close> are each put into the query slot under \<open>a\<close>,
  a later one overwriting the earlier: the result holds \<open>a = 'x'\<close> after one argument,
  \<open>a = 'y'\<close> after two and \<open>a = 'z'\<close> after all three.
\<close>

theorem config_entry_carried_forward:
  "collect_params (as1 @ [a]) fs =
     (case collect_params as1 fs of
        Inl e \<Rightarrow> Inl e
      | Inr p \<Rightarrow>
          (case active_config fs (length as1) of
             None \<Rightarrow> Inr p
           | Some c \<Rightarrow> place_arg (buildKeyMap fs Map.empty) c a p)) \<and>
   active_config [AField \<lparr>field_in = Query, key = Some ''a'', field_map = None\<rparr>] 1 =
     Some (AField \<lparr>field_in = Query, key = Some ''a'', field_map = None\<rparr>) \<and>
   active_config [AField \<lparr>field_in = Query, key = Some ''a'', field_map = None\<rparr>] 2 =
     Some (AField \<lparr>field_in = Query, key = Some ''a'', field_map = None\<rparr>) \<and>
   buildClientParams [JStr ''x''] [AField \<lparr>field_in = Query, key = Some ''a'', field_map = None\<rparr>] =
     Inr \<lparr>body = None, headers = None, path = None,
          query = Some (JObj Plain [(''a'', JStr ''x'')])\<rparr> \<and>
   buildClientParams [JStr ''x'', JStr ''y'']
     [AField \<lparr>field_in = Query, key = Some ''a'', field_map = None\<rparr>] =
     Inr \<lparr>body = None, headers = None, path = None,
          query = Some (JObj Plain [(''a'', JStr ''y'')])\<rparr> \<and>
   buildClientParams [JStr ''x'', JStr ''y'', JStr ''z'']
     [AField \<lparr>field_in = Query, key = Some ''a'', field_map = None\<rparr>] =
     Inr \<lparr>body = None, headers = None, path = None,
          query = Some (JObj Plain [(''a'', JStr ''z'')])\<rparr>"
  by (simp add: collect_params_snoc query_a_params active_config_def)

section \<open>Properties of the request executor\<close>

lemma request_at:
  "exchange ics built = Inr (opts, rq, resp) \<Longrightarrow>
     request J g ics built =
       (if ok resp then on_ok g opts rq resp else on_error J ics opts rq resp)"
  by (simp add: request_def)

lemma sample_exchange:
  "exchange no_interceptors (Inr (sample_options resp, url)) =
     Inr (sample_options resp, url, resp)"
  by (simp add: exchange_def no_interceptors_def sample_options_def)

lemma on_ok_returns:
  "on_ok g opts rq resp = Inr r \<Longrightarrow> \<exists>d. r = with_data opts d rq resp"
  by (auto simp: on_ok_def Let_def split: if_splits sum.splits option.splits)

lemma truthy_or_else: "truthy (or_else v (JObj Plain []))"
  by (simp add: or_else_def)

lemma on_error_returns:
  "on_error J ics opts rq resp = Inr r \<Longrightarrow>
     \<not> throwOnError opts \<and>
     (if responseStyle opts = Some StyleData then r = Bare JUndefined
      else \<exists>v. truthy v \<and>
             r = Envelope \<lparr>result_data = None, result_error = Some v,
                            result_request = rq, result_response = resp\<rparr>)"
  by (auto simp: on_error_def Let_def truthy_or_else split: if_splits sum.splits)

lemma on_error_throws:
  "throwOnError opts \<Longrightarrow> \<exists>t. on_error J ics opts rq resp = Inl t"
  by (auto simp: on_error_def Let_def split: sum.splits)

text \<open>
  The request of the examples: no interceptors, the options \<open>sample_options\<close>, and a
  transport that answers with status 500 and the body text \<open>t\<close>.
\<close>

lemma sample_error_result:
  "request JSON_parse_sample (\<lambda>ct. None) no_interceptors
     (Inr (sample_options (sample_response False 500 t), ''/items'')) =
   Inr (Envelope
     \<lparr>result_data = None,
      result_error =
        Some (or_else
          (nullish (case JSON_parse_sample t of None \<Rightarrow> JUndefined | Some v \<Rightarrow> v) (JStr t))
          (JObj Plain [])),
      result_request = ''/items'', result_response = sample_response False 500 t\<rparr>)"
  by (simp add: request_at [OF sample_exchange] on_error_def)
    (simp add: sample_response_def sample_options_def no_interceptors_def)

text \<open>
  Claim C1. Let a call of \<open>request\<close> reach the result stage with the options \<open>opts\<close>,
  the request \<open>rq\<close> and the response \<open>resp\<close>. Whenever the call returns: in the envelope
  style the returned object has exactly one of the fields \<open>data\<close> and \<open>error\<close> (\<open>data\<close>
  alone for an ok response; \<open>error\<close> alone, with a truthy value, otherwise); in the bare
  style it returns undefined for a response that is not ok. A failure is surfaced once:
  with \<open>throwOnError\<close> the call throws and returns no object, and a call that returns
  for a response that is not ok has not thrown, \<open>throwOnError\<close> being off. A field is
  populated when the returned object has it.
\<close>

theorem request_result_shape:
  assumes "exchange ics built = Inr (opts, rq, resp)"
  shows "(\<forall>r. request J g ics built = Inr r \<longrightarrow>
            (if responseStyle opts = Some StyleData then
               (\<not> ok resp \<longrightarrow> r = Bare JUndefined)
             else
               (\<exists>e. r = Envelope e \<and>
                  (result_data e = None) \<noteq> (result_error e = None) \<and>
                  (ok resp \<longrightarrow> result_error e = None) \<and>
                  (\<not> ok resp \<longrightarrow> (\<exists>v. result_error e = Some v \<and> truthy v))))) \<and>
         (\<not> ok resp \<longrightarrow>
            (throwOnError opts \<longrightarrow> (\<exists>t. request J g ics built = Inl t)) \<and>
            (\<forall>r. request J g ics built = Inr r \<longrightarrow> \<not> throwOnError opts))"
proof (cases "ok resp")
  case True
  then have req: "request J g ics built = on_ok g opts rq resp"
    using assms by (simp add: request_at)
  show ?thesis
    using True by (auto simp: req with_data_def dest!: on_ok_returns)
next
  case False
  then have req: "request J g ics built = on_error J ics opts rq resp"
    using assms by (simp add: request_at)
  show ?thesis
    using False on_error_throws [of opts J ics rq resp]
    by (auto simp: req dest!: on_error_returns split: if_splits)
qed

text \<open>
  Witness for claim C1: a response of status 500 with the body \<open>[404]\<close>, in the envelope
  style. The call returns an object with the field \<open>error\<close> and without the field
  \<open>data\<close>.
\<close>

theorem request_result_shape_witness:
  "exchange no_interceptors (Inr (sample_options (sample_response False 500 ''[404]''), ''/items'')) =
     Inr (sample_options (sample_response False 500 ''[404]''), ''/items'',
          sample_response False 500 ''[404]'') \<and>
   (\<exists>e. request JSON_parse_sample (\<lambda>ct. None) no_interceptors
           (Inr (sample_options (sample_response False 500 ''[404]''), ''/items'')) =
         Inr (Envelope e) \<and>
         result_data e = None \<and>
         result_error e = Some (JObj Array [(''0'', JNum 404)])) \<and>
   \<not> throwOnError (sample_options (sample_response False 500 ''[404]''))"
proof -
  have returned: "request JSON_parse_sample (\<lambda>ct. None) no_interceptors
      (Inr (sample_options (sample_response False 500 ''[404]''), ''/items'')) =
    Inr (Envelope \<lparr>result_data = None, result_error = Some (JObj Array [(''0'', JNum 404)]),
      result_request = ''/items'', result_response = sample_response False 500 ''[404]''\<rparr>)"
    by (simp add: sample_error_result) (simp add: JSON_parse_sample_def or_else_def)
  show ?thesis
    using returned
      request_result_shape [where J = JSON_parse_sample and g = "\<lambda>ct. None",
        OF sample_exchange [of "sample_response False 500 ''[404]''" "''/items''"]]
    by (simp add: sample_exchange) (simp add: sample_response_def sample_options_def)
qed

text \<open>
  Claim C3 fails as stated. The body text \<open>false\<close> is valid JSON and parses to
  \<open>false\<close>, yet the error value is the empty object, the default for a falsy final
  error; the body text \<open>null\<close> parses to \<open>null\<close>, and the error value is the raw text
  \<open>'null'\<close>, which \<open>??\<close> falls back to.
\<close>

theorem error_value_not_parsed_json:
  "JSON_parse_sample ''false'' = Some (JBool False) \<and>
   request JSON_parse_sample (\<lambda>ct. None) no_interceptors
     (Inr (sample_options (sample_response False 500 ''false''), ''/items'')) =
   Inr (Envelope \<lparr>result_data = None, result_error = Some (JObj Plain []),
     result_request = ''/items'', result_response = sample_response False 500 ''false''\<rparr>) \<and>
   JSON_parse_sample ''null'' = Some JNull \<and>
   request JSON_parse_sample (\<lambda>ct. None) no_interceptors
     (Inr (sample_options (sample_response False 500 ''null''), ''/items'')) =
   Inr (Envelope \<lparr>result_data = None, result_error = Some (JStr ''null''),
     result_request = ''/items'', result_response = sample_response False 500 ''null''\<rparr>)"
  by (simp add: sample_error_result) (simp add: JSON_parse_sample_def or_else_def)

text \<open>
  Claim C3, amended. For every response that is not ok whose body text is valid JSON with
  a truthy parsed value (not null, false, 0 or the empty string), and with an empty error
  interceptor chain, the error value of the call is the parsed value, not the raw text: it
  is thrown under \<open>throwOnError\<close> and otherwise returned in the field \<open>error\<close> of the
  envelope (the bare style returns undefined).
\<close>

theorem error_value_is_truthy_parsed_json:
  assumes "exchange ics built = Inr (opts, rq, resp)"
    and "\<not> ok resp"
    and "read_text resp = Inr t"
    and "J t = Some v"
    and "truthy v"
    and "error_fns ics = []"
  shows "request J g ics built =
     (if throwOnError opts then Inl v
      else if responseStyle opts = Some StyleData then Inr (Bare JUndefined)
      else Inr (Envelope \<lparr>result_data = None, result_error = Some v,
                          result_request = rq, result_response = resp\<rparr>))"
proof -
  have n: "nullish v (JStr t) = v"
    using \<open>truthy v\<close> by (cases v) simp_all
  have o: "or_else v (JObj Plain []) = v"
    using \<open>truthy v\<close> by (simp add: or_else_def)
  show ?thesis
    using assms(2-4,6) by (simp add: request_at [OF assms(1)] on_error_def n o)
qed

text \<open>
  Witness for claim C3: the body text \<open>[404]\<close> parses to the array \<open>[404]\<close>, which is
  the error value of the envelope.
\<close>

theorem error_value_is_truthy_parsed_json_witness:
  "\<not> ok (sample_response False 500 ''[404]'') \<and>
   read_text (sample_response False 500 ''[404]'') = Inr ''[404]'' \<and>
   JSON_parse_sample ''[404]'' = Some (JObj Array [(''0'', JNum 404)]) \<and>
   truthy (JObj Array [(''0'', JNum 404)]) \<and>
   error_fns no_interceptors = [] \<and>
   request JSON_parse_sample (\<lambda>ct. None) no_interceptors
     (Inr (sample_options (sample_response False 500 ''[404]''), ''/items'')) =
   Inr (Envelope \<lparr>result_data = None, result_error = Some (JObj Array [(''0'', JNum 404)]),
     result_request = ''/items'', result_response = sample_response False 500 ''[404]''\<rparr>)"
proof -
  have not_ok: "\<not> ok (sample_response False 500 ''[404]'')"
    by (simp add: sample_response_def)
  have body_text: "read_text (sample_response False 500 ''[404]'') = Inr ''[404]''"
    by (simp add: sample_response_def)
  have parsed: "JSON_parse_sample ''[404]'' = Some (JObj Array [(''0'', JNum 404)])"
    by (simp add: JSON_parse_sample_def)
  have is_truthy: "truthy (JObj Array [(''0'', JNum 404)])"
    by simp
  have no_fns: "error_fns no_interceptors = []"
    by (simp add: no_interceptors_def)
  show ?thesis
    using not_ok body_text parsed is_truthy no_fns
      error_value_is_truthy_parsed_json [where J = JSON_parse_sample and g = "\<lambda>ct. None",
        OF sample_exchange [of "sample_response False 500 ''[404]''" "''/items''"]
           not_ok body_text parsed is_truthy no_fns]
    by (simp add: sample_options_def)
qed

text \<open>
  Claim C4. For every ok response that reaches the result stage (the transport's
  response as the response interceptors leave it) with status 204 or with a
  \<open>Content-Length\<close> header equal to \<open>'0'\<close>, the call returns the empty object as the data (bare style) or an
  envelope whose field \<open>data\<close> is the empty object, whatever \<open>parseAs\<close> is; no body
  reader, response validator or response transformer has a part in the result.
\<close>

theorem no_content_returns_empty_object:
  assumes "exchange ics built = Inr (opts, rq, resp)"
    and "ok resp"
    and "status resp = 204 \<or> headers_get resp ''Content-Length'' = Some ''0''"
  shows "request J g ics built =
     Inr (if responseStyle opts = Some StyleData then Bare (JObj Plain [])
          else Envelope \<lparr>result_data = Some (JObj Plain []), result_error = None,
                          result_request = rq, result_response = resp\<rparr>)"
  using assms(2,3) by (auto simp: request_at [OF assms(1)] on_ok_def with_data_def)

text \<open>
  Witness for claim C4: a response of status 204 with an empty body, under options that
  ask for JSON and whose validator rejects everything. Reading the body as JSON would
  fail, and the call returns the envelope with the empty object.
\<close>

theorem no_content_returns_empty_object_witness:
  "ok (sample_response True 204 []) \<and>
   status (sample_response True 204 []) = 204 \<and>
   read_json (sample_response True 204 []) = Inl (JStr ''SyntaxError'') \<and>
   parseAs (sample_options (sample_response True 204 [])) = Some ParseJson \<and>
   request JSON_parse_sample (\<lambda>ct. None) no_interceptors
     (Inr (sample_options (sample_response True 204 []), ''/items'')) =
   Inr (Envelope \<lparr>result_data = Some (JObj Plain []), result_error = None,
     result_request = ''/items'', result_response = sample_response True 204 []\<rparr>)"
proof -
  have is_ok: "ok (sample_response True 204 [])"
    by (simp add: sample_response_def)
  have no_content: "status (sample_response True 204 []) = 204 \<or>
      headers_get (sample_response True 204 []) ''Content-Length'' = Some ''0''"
    by (simp add: sample_response_def)
  show ?thesis
    using is_ok
      no_content_returns_empty_object [where J = JSON_parse_sample and g = "\<lambda>ct. None",
        OF sample_exchange [of "sample_response True 204 []" "''/items''"] is_ok no_content]
    by (simp add: sample_options_def) (simp add: sample_response_def JSON_parse_sample_def)
qed

section \<open>Properties of the platform services\<close>

text \<open>
  Claim C9. On a platform that is not macOS each of the four check and request
  operations of the permissions service returns \<open>Ok(true)\<close> and has called no function
  of the platform. The web FFmpeg service answers \<open>compressAudioBlob\<close>, for every blob
  and every options string, with a returned \<open>Err\<close> (nothing is thrown) that carries a
  tagged error with the fixed message that compression is not available in the web
  version, the options as its context and no cause; its \<open>checkInstalled\<close> returns
  \<open>Ok(false)\<close>. Neither calls a function of the platform.
\<close>

theorem unsupported_platform_results_are_fixed:
  assumes "\<not> IS_MACOS pf"
  shows "accessibility_check pf = (Ok (JBool True), []) \<and>
    accessibility_request pf = (Ok (JBool True), []) \<and>
    microphone_check pf = (Ok (JBool True), []) \<and>
    microphone_request pf = (Ok (JBool True), []) \<and>
    checkInstalled = (Ok (JBool False), []) \<and>
    compressAudioBlob blob compressionOptions =
      (Err \<lparr>err_name = ''FfmpegServiceError'',
            err_message =
              ''Audio compression is not available in the web version. '' @
              ''FFmpeg is only supported in the desktop application.'',
            err_context = JObj Plain [(''compressionOptions'', JStr compressionOptions)],
            err_cause = JUndefined\<rparr>,
       [])"
  using assms
  by (simp add: accessibility_check_def accessibility_request_def microphone_check_def
      microphone_request_def checkInstalled_def compressAudioBlob_def FfmpegServiceErr_def)

text \<open>
  Witness for claim C9: the sample platform is not macOS, and every call of its
  permissions plugin would fail; the operations return \<open>Ok(true)\<close> all the same.
\<close>

theorem unsupported_platform_results_are_fixed_witness:
  "\<not> IS_MACOS sample_permissions_platform \<and>
   checkAccessibilityPermission sample_permissions_platform = Inl (JStr ''no plugin'') \<and>
   accessibility_check sample_permissions_platform = (Ok (JBool True), []) \<and>
   accessibility_request sample_permissions_platform = (Ok (JBool True), []) \<and>
   microphone_check sample_permissions_platform = (Ok (JBool True), []) \<and>
   microphone_request sample_permissions_platform = (Ok (JBool True), []) \<and>
   fst (compressAudioBlob (JObj Host []) ''-b:a 32k'') =
     Err \<lparr>err_name = ''FfmpegServiceError'',
          err_message =
            ''Audio compression is not available in the web version. '' @
            ''FFmpeg is only supported in the desktop application.'',
          err_context = JObj Plain [(''compressionOptions'', JStr ''-b:a 32k'')],
          err_cause = JUndefined\<rparr>"
proof -
  have not_macos: "\<not> IS_MACOS sample_permissions_platform"
    by (simp add: sample_permissions_platform_def)
  have fails: "checkAccessibilityPermission sample_permissions_platform =
      Inl (JStr ''no plugin'')"
    by (simp add: sample_permissions_platform_def)
  show ?thesis
    using not_macos fails
      unsupported_platform_results_are_fixed [OF not_macos, of "JObj Host []" "''-b:a 32k''"]
    by simp
qed

text \<open>
  Claim C10. For every string id: when the listing of the active notifications succeeds
  and holds no notification whose id is the hash of the string, \<open>clear\<close> returns
  \<open>Ok(undefined)\<close>, and the listing is the only call it has made to the platform: there
  is no removal call.
\<close>

theorem clear_of_inactive_notification_is_ok:
  assumes "active pf = Inr ns"
    and "\<forall>n \<in> set ns. get_property n ''id'' \<noteq> JNum (hashNanoidToNumber pf idStringified)"
  shows "clear pf idStringified = (Ok JUndefined, [''active''])"
proof -
  have "find (\<lambda>n. get_property n ''id'' = JNum (hashNanoidToNumber pf idStringified)) ns = None"
    using assms(2) by (simp add: find_None_iff)
  then show ?thesis
    using assms(1) by (simp add: clear_def removeNotificationById_def tryAsync_def)
qed

text \<open>
  Witness for claim C10: the one active notification has the id 7 and the string
  \<open>'abc'\<close> hashes to 3; \<open>clear\<close> returns \<open>Ok(undefined)\<close> after the listing alone,
  although a removal would have failed.
\<close>

theorem clear_of_inactive_notification_is_ok_witness:
  "active sample_notification_platform =
     Inr [JObj Plain [(''id'', JNum 7), (''title'', JStr ''Saved'')]] \<and>
   get_property (JObj Plain [(''id'', JNum 7), (''title'', JStr ''Saved'')]) ''id'' \<noteq>
     JNum (hashNanoidToNumber sample_notification_platform ''abc'') \<and>
   clear sample_notification_platform ''abc'' = (Ok JUndefined, [''active''])"
proof -
  have listing: "active sample_notification_platform =
      Inr [JObj Plain [(''id'', JNum 7), (''title'', JStr ''Saved'')]]"
    by (simp add: sample_notification_platform_def)
  have other_id: "\<forall>n \<in> set [JObj Plain [(''id'', JNum 7), (''title'', JStr ''Saved'')]].
      get_property n ''id'' \<noteq> JNum (hashNanoidToNumber sample_notification_platform ''abc'')"
    by (simp add: sample_notification_platform_def)
  show ?thesis
    using listing other_id clear_of_inactive_notification_is_ok [OF listing other_id]
    by simp
qed

end
